theory Spec2Isabelle
  imports Main
begin

section \<open>JavaScript values\<close>

text \<open>
  The values that reach the services are the results of \<^verbatim>\<open>JSON.parse\<close> and the
  objects the services build themselves. \<open>JUndefined\<close> is the result of reading a
  property that an object does not have. Numbers are the integer-valued ones.
  An object is its list of properties; reading a property takes its first binding.
\<close>

datatype jsval =
    JUndefined
  | JNull
  | JBool bool
  | JNum int
  | JStr string
  | JArr "jsval list"
  | JObj "(string \<times> jsval) list"

type_synonym object = "(string \<times> jsval) list"

text \<open>\<^verbatim>\<open>obj[k]\<close> on an object.\<close>

definition get :: "object \<Rightarrow> string \<Rightarrow> jsval" where
  "get obj k = (case map_of obj k of None \<Rightarrow> JUndefined | Some v \<Rightarrow> v)"

text \<open>\<^verbatim>\<open>k in obj\<close>: the property exists, whatever its value.\<close>

definition has_key :: "string \<Rightarrow> object \<Rightarrow> bool" where
  "has_key k obj = (k \<in> set (map fst obj))"

text \<open>The conversion to boolean of \<^verbatim>\<open>if (v)\<close> and \<^verbatim>\<open>!!v\<close>.\<close>

fun truthy :: "jsval \<Rightarrow> bool" where
  "truthy JUndefined = False"
| "truthy JNull = False"
| "truthy (JBool b) = b"
| "truthy (JNum n) = (n \<noteq> 0)"
| "truthy (JStr s) = (s \<noteq> [])"
| "truthy (JArr xs) = True"
| "truthy (JObj kvs) = True"

text \<open>
  What a promise rejects with. \<open>Error v\<close> is \<^verbatim>\<open>new Error(v)\<close>, whose message is made
  from \<open>v\<close>; \<open>SyntaxError\<close> is what \<^verbatim>\<open>response.json()\<close> rejects with on a body that
  is not JSON; \<open>TypeError\<close> is a property read on \<^verbatim>\<open>null\<close> or \<^verbatim>\<open>undefined\<close>, or a
  \<^verbatim>\<open>fetch\<close> that could not reach the server.
\<close>

datatype js_error =
    Error jsval
  | SyntaxError string
  | TypeError string

section \<open>Parts (the declarations of @a2a-js/sdk that the services use)\<close>

text \<open>
  A part is a text, a file or a data part (\<^verbatim>\<open>kind\<close> is \<^verbatim>\<open>'text'\<close>, \<^verbatim>\<open>'file'\<close> or
  \<^verbatim>\<open>'data'\<close>), with its \<^verbatim>\<open>text\<close>, \<^verbatim>\<open>file\<close> or \<^verbatim>\<open>data\<close>, and its optional
  \<^verbatim>\<open>metadata\<close>.
\<close>

datatype part =
    TextPart string "object option"
  | FilePart jsval "object option"
  | DataPart object "object option"

section \<open>a2a_service.ts\<close>

text \<open>
  The argument of \<^verbatim>\<open>JSON.stringify\<close> in \<^verbatim>\<open>A2aService.sendMessage\<close>: the value sent
  as the body of the request.
\<close>

record request_body =
  body_parts :: "part list"
  body_supportedCatalogUris :: "string list"
  body_context_id :: "string option"

text \<open>
  The response of \<^verbatim>\<open>fetch\<close>: its \<^verbatim>\<open>ok\<close> flag, and what \<^verbatim>\<open>response.json()\<close> settles
  with (the parsed body, or the rejection when the body is not JSON).
\<close>

record response =
  ok :: bool
  json :: "js_error + jsval"

text \<open>The message that \<^verbatim>\<open>sendMessage\<close> of the service receives: its \<^verbatim>\<open>request\<close>.\<close>

record client_message =
  request :: "part list"

text \<open>\<^verbatim>\<open>error.error\<close>: a property read on whatever the body parsed to.\<close>

fun error_property :: "jsval \<Rightarrow> js_error + jsval" where
  "error_property JUndefined = Inl (TypeError ''Cannot read properties of undefined'')"
| "error_property JNull = Inl (TypeError ''Cannot read properties of null'')"
| "error_property (JObj kvs) = Inr (get kvs ''error'')"
| "error_property v = Inr JUndefined"

text \<open>
  \<^verbatim>\<open>A2aService.sendMessage\<close>. The network is the parameter \<open>fetch\<close>, from the body sent
  to a response or a rejection; \<open>uris\<close> is the field \<^verbatim>\<open>supportedCatalogUris\<close>.
\<close>

definition A2aService_sendMessage ::
  "(request_body \<Rightarrow> js_error + response) \<Rightarrow> string list \<Rightarrow> client_message \<Rightarrow> string option
     \<Rightarrow> js_error + jsval" where
  "A2aService_sendMessage fetch uris message contextId =
     (case fetch \<lparr>body_parts = request message, body_supportedCatalogUris = uris,
                   body_context_id = contextId\<rparr> of
        Inl rejected \<Rightarrow> Inl rejected
      | Inr response \<Rightarrow>
          if ok response then json response
          else (case json response of
                  Inl rejected \<Rightarrow> Inl rejected
                | Inr error \<Rightarrow>
                    (case error_property error of
                       Inl thrown \<Rightarrow> Inl thrown
                     | Inr v \<Rightarrow> Inl (Error v))))"

text \<open>A network that answers every request with the same response.\<close>

definition answers :: "response \<Rightarrow> request_body \<Rightarrow> js_error + response" where
  "answers r = (\<lambda>body. Inr r)"

section \<open>The results of the agent (declarations of @a2a-js/sdk)\<close>

text \<open>
  Of a message, a task, its status and its artifacts, the fields that \<^verbatim>\<open>ChatService\<close>
  reads. \<^verbatim>\<open>contextId\<close> is read through \<^verbatim>\<open>result?.contextId\<close> and may be absent;
  \<^verbatim>\<open>status.message\<close> and \<^verbatim>\<open>artifacts\<close> are optional.
\<close>

record message =
  message_parts :: "part list"
  message_contextId :: "string option"

record artifact =
  artifact_parts :: "part list"

record task_status =
  status_message :: "message option"

record task =
  task_contextId :: "string option"
  task_status :: task_status
  artifacts :: "artifact list option"

text \<open>\<^verbatim>\<open>result.kind\<close> is \<^verbatim>\<open>'task'\<close> or \<^verbatim>\<open>'message'\<close>.\<close>

datatype result = Task task | Message message

record send_message_success_response =
  result :: result

section \<open>The messages of the chat (@rizzcharts/types/ui_message)\<close>

type_synonym time = string

record ui_message_content =
  content_id :: nat
  data :: part

datatype role = ui_user | ui_agent string string

datatype status = pending | completed

record ui_message =
  message_id :: nat
  context_id :: string
  role :: role
  contents :: "ui_message_content list"
  status :: status
  created :: time
  lastUpdated :: time

section \<open>chat_service.ts\<close>

text \<open>
  The injected \<^verbatim>\<open>ModelProcessor\<close>: its state is of type \<open>'p\<close>, \<^verbatim>\<open>getSurfaces\<close> reads
  the surfaces (of type \<open>'s\<close>) and \<^verbatim>\<open>processMessages\<close> takes a batch of messages,
  changes the state and may throw.
\<close>

record ('p, 's) model_processor =
  getSurfaces :: "'p \<Rightarrow> 's"
  processMessages :: "object list \<Rightarrow> 'p \<Rightarrow> js_error option \<times> 'p"

text \<open>
  The fields of \<^verbatim>\<open>ChatService\<close>, with the state of the processor. \<^verbatim>\<open>uuid()\<close> is a
  counter: every call returns the next number.
\<close>

record ('p, 's) chat_service =
  processor :: 'p
  surfaces :: 's
  history :: "ui_message list"
  contextId :: string
  isA2aStreamOpen :: bool
  uuids :: nat

definition uuid :: "('p, 's) chat_service \<Rightarrow> nat \<times> ('p, 's) chat_service" where
  "uuid s = (uuids s, s\<lparr>uuids := Suc (uuids s)\<rparr>)"

text \<open>The fields as the class initialises them.\<close>

definition new_ChatService :: "('p, 's) model_processor \<Rightarrow> 'p \<Rightarrow> ('p, 's) chat_service" where
  "new_ChatService proc p =
     \<lparr>processor = p, surfaces = getSurfaces proc p, history = [], contextId = [],
      isA2aStreamOpen = False, uuids = 0\<rparr>"

text \<open>What \<^verbatim>\<open>sendMessage\<close> is called with: a string or a client event.\<close>

datatype user_message = StringMessage string | EventMessage object

definition createUserMessagePart :: "user_message \<Rightarrow> part" where
  "createUserMessagePart message =
     (case message of
        StringMessage str \<Rightarrow> TextPart str None
      | EventMessage ev \<Rightarrow>
          DataPart ev (Some [(''mimeType'', JStr ''application/json+a2ui'')]))"

text \<open>\<^verbatim>\<open>message.userAction?.name\<close>.\<close>

definition userAction_name :: "object \<Rightarrow> jsval" where
  "userAction_name ev =
     (case get ev ''userAction'' of
        JObj userAction \<Rightarrow> get userAction ''name''
      | other \<Rightarrow> JUndefined)"

text \<open>
  \<^verbatim>\<open>createUserMessageContents\<close>. The name of a user action is declared a string: an
  empty one is falsy and gives no content, as an absent one does. A name of another
  type is outside the declaration, and has no content here.
\<close>

definition createUserMessageContents ::
  "user_message \<Rightarrow> ('p, 's) chat_service \<Rightarrow> ui_message_content list \<times> ('p, 's) chat_service"
  where
  "createUserMessageContents message s =
     (case message of
        StringMessage str \<Rightarrow>
          (let (i, s') = uuid s
           in ([\<lparr>content_id = i, data = createUserMessagePart message\<rparr>], s'))
      | EventMessage ev \<Rightarrow>
          (case userAction_name ev of
             JStr userVisibleText \<Rightarrow>
               if userVisibleText = [] then ([], s)
               else (let (i, s') = uuid s
                     in ([\<lparr>content_id = i, data = TextPart userVisibleText None\<rparr>], s'))
           | other \<Rightarrow> ([], s)))"

text \<open>The parts of the response, in the order of lines 97 to 109.\<close>

definition flatMap :: "('a \<Rightarrow> 'b list) \<Rightarrow> 'a list \<Rightarrow> 'b list" where
  "flatMap f xs = concat (map f xs)"

definition agentResponseParts :: "result \<Rightarrow> part list" where
  "agentResponseParts r =
     (case r of
        Task task \<Rightarrow>
          (let taskStatusParts =
                 (case status_message (task_status task) of
                    None \<Rightarrow> [] | Some m \<Rightarrow> message_parts m);
               artifactParts =
                 flatMap artifact_parts (case artifacts task of None \<Rightarrow> [] | Some as \<Rightarrow> as)
           in taskStatusParts @ artifactParts)
      | Message m \<Rightarrow> message_parts m)"

text \<open>The function mapped over the parts at lines 112 to 134: a message or \<^verbatim>\<open>null\<close>.\<close>

fun to_ServerToClientMessage :: "part \<Rightarrow> object option" where
  "to_ServerToClientMessage (DataPart d m) =
     (if truthy (get d ''beginRendering'')
        then Some [(''beginRendering'', get d ''beginRendering'')]
      else if truthy (get d ''surfaceUpdate'')
        then Some [(''surfaceUpdate'', get d ''surfaceUpdate'')]
      else if truthy (get d ''dataModelUpdate'')
        then Some [(''dataModelUpdate'', get d ''dataModelUpdate'')]
      else if truthy (get d ''deleteSurface'')
        then Some [(''deleteSurface'', get d ''deleteSurface'')]
      else None)"
| "to_ServerToClientMessage p = None"

text \<open>The map and the filter of lines 111 to 135: the messages that are not \<^verbatim>\<open>null\<close>.\<close>

definition a2uiDataParts :: "part list \<Rightarrow> object list" where
  "a2uiDataParts agentParts = List.map_filter to_ServerToClientMessage agentParts"

text \<open>The filter of lines 142 to 144.\<close>

fun shown_in_chat :: "part \<Rightarrow> bool" where
  "shown_in_chat (TextPart t m) = True"
| "shown_in_chat (DataPart d m) = has_key ''beginRendering'' d"
| "shown_in_chat (FilePart f m) = False"

text \<open>The map of lines 145 to 151: every content takes the next \<^verbatim>\<open>uuid()\<close>.\<close>

fun to_contents :: "nat \<Rightarrow> part list \<Rightarrow> ui_message_content list" where
  "to_contents n [] = []"
| "to_contents n (p # ps) = \<lparr>content_id = n, data = p\<rparr> # to_contents (Suc n) ps"

definition new_contents :: "nat \<Rightarrow> part list \<Rightarrow> ui_message_content list" where
  "new_contents n agentParts = to_contents n (filter shown_in_chat agentParts)"

text \<open>
  The injected \<^verbatim>\<open>A2aService\<close> as \<^verbatim>\<open>ChatService\<close> calls it: from the message and the
  context id to the response, at its declared type, or to a rejection.
\<close>

type_synonym a2a_service =
  "client_message \<Rightarrow> string option \<Rightarrow> js_error + send_message_success_response"

text \<open>\<^verbatim>\<open>result?.contextId\<close>.\<close>

definition result_contextId :: "result \<Rightarrow> string option" where
  "result_contextId r =
     (case r of Task t \<Rightarrow> task_contextId t | Message m \<Rightarrow> message_contextId m)"

text \<open>
  \<^verbatim>\<open>sendMessage\<close> up to its \<^verbatim>\<open>await\<close> (lines 50 to 81): \<open>now\<close> is the reading of the
  clock. The result is \<^verbatim>\<open>newAgentMessage\<close> and the state at the call of the service.
\<close>

definition sendMessage_before_await ::
  "('p, 's) model_processor \<Rightarrow> time \<Rightarrow> user_message \<Rightarrow> ('p, 's) chat_service
     \<Rightarrow> ui_message \<times> ('p, 's) chat_service" where
  "sendMessage_before_await proc now message s0 =
     (let (userId, s1) = uuid s0;
          (userContents, s2) = createUserMessageContents message s1;
          newUserMessage =
            \<lparr>message_id = userId, context_id = contextId s0, role = ui_user,
             contents = userContents, status = pending, created = now, lastUpdated = now\<rparr>;
          (agentId, s3) = uuid s2;
          newAgentMessage =
            \<lparr>message_id = agentId, context_id = contextId s0,
             role = ui_agent ''MyCharts Agent'' ''rizz-agent.png'',
             contents = [], status = pending, created = now, lastUpdated = now\<rparr>;
          s4 = s3\<lparr>history := history s3 @ [newUserMessage, newAgentMessage]\<rparr>;
          s5 = s4\<lparr>surfaces := getSurfaces proc (processor s4)\<rparr>;
          s6 = s5\<lparr>isA2aStreamOpen := True\<rparr>
      in (newAgentMessage, s6))"

text \<open>
  \<^verbatim>\<open>sendMessage\<close> after its \<^verbatim>\<open>await\<close>, when the service has answered (lines 90 to
  162): \<open>later\<close> is the second reading of the clock. The result is what
  \<^verbatim>\<open>processMessages\<close> threw, or \<open>None\<close>, and the state left behind.
  \<^verbatim>\<open>newAgentMessage.contents.push\<close> changes the object that the history holds as well;
  the same block then replaces the last element of the history by the completed copy.
\<close>

definition sendMessage_after_await ::
  "('p, 's) model_processor \<Rightarrow> time \<Rightarrow> ui_message \<Rightarrow> send_message_success_response
     \<Rightarrow> ('p, 's) chat_service \<Rightarrow> js_error option \<times> ('p, 's) chat_service" where
  "sendMessage_after_await proc later newAgentMessage a2aResponse s6 =
     (let newContextId = result_contextId (result a2aResponse);
          s7 = (case newContextId of
                  None \<Rightarrow> s6
                | Some c \<Rightarrow> if c = [] then s6 else s6\<lparr>contextId := c\<rparr>);
          agentParts = agentResponseParts (result a2aResponse);
          (thrown, p) = processMessages proc (a2uiDataParts agentParts) (processor s7);
          s8 = s7\<lparr>processor := p\<rparr>
      in case thrown of
           Some err \<Rightarrow> (Some err, s8)
         | None \<Rightarrow>
             (let pushed = newAgentMessage
                    \<lparr>contents := contents newAgentMessage @ new_contents (uuids s8) agentParts\<rparr>;
                  s9 = s8\<lparr>uuids := uuids s8 + length (new_contents (uuids s8) agentParts)\<rparr>;
                  s10 = s9\<lparr>isA2aStreamOpen := False\<rparr>;
                  s11 = s10\<lparr>history := butlast (history s10)
                           @ [pushed\<lparr>lastUpdated := later, status := completed\<rparr>]\<rparr>;
                  s12 = s11\<lparr>surfaces := getSurfaces proc (processor s11)\<rparr>
              in (None, s12)))"

text \<open>
  \<^verbatim>\<open>sendMessage\<close>, one call that runs alone from its start to its end: no other call
  starts while it awaits the service. The result is the error the promise rejects with,
  or \<open>None\<close> when it fulfils, and the state left behind.
\<close>

definition sendMessage ::
  "('p, 's) model_processor \<Rightarrow> a2a_service \<Rightarrow> time \<Rightarrow> time \<Rightarrow> user_message
     \<Rightarrow> ('p, 's) chat_service \<Rightarrow> js_error option \<times> ('p, 's) chat_service" where
  "sendMessage proc a2aService now later message s0 =
     (let (newAgentMessage, s6) = sendMessage_before_await proc now message s0
      in case a2aService \<lparr>request = [createUserMessagePart message]\<rparr> (Some (contextId s6)) of
           Inl rejected \<Rightarrow> (Some rejected, s6)
         | Inr a2aResponse \<Rightarrow> sendMessage_after_await proc later newAgentMessage a2aResponse s6)"

text \<open>
  The \<^verbatim>\<open>completion\<close> of an event, as the subscriber meets it: what each of its methods
  throws when the subscriber calls it, \<open>None\<close> when the call returns normally.
\<close>

record completion =
  completion_next :: "object list \<Rightarrow> js_error option"
  completion_complete :: "js_error option"
  completion_error :: "js_error \<Rightarrow> js_error option"

record event =
  event_message :: object
  event_completion :: completion

text \<open>The calls made on a completion.\<close>

datatype completion_call = Next "object list" | Complete | ErrorCall js_error

text \<open>
  The subscriber of the constructor (lines 38 to 46), for one event whose
  \<^verbatim>\<open>sendMessage\<close> settles. The result is the calls it makes on the completion of the
  event, in order, then what its own promise rejects with (\<open>None\<close> when it fulfils),
  then the state left behind. \<^verbatim>\<open>next\<close> and \<^verbatim>\<open>complete\<close> are called inside the \<^verbatim>\<open>try\<close>: what
  one of them throws is caught and passed to \<^verbatim>\<open>error\<close>, as a rejection of \<^verbatim>\<open>sendMessage\<close>
  is. What \<^verbatim>\<open>error\<close> throws is not caught.
\<close>

definition on_event ::
  "('p, 's) model_processor \<Rightarrow> a2a_service \<Rightarrow> time \<Rightarrow> time \<Rightarrow> event
     \<Rightarrow> ('p, 's) chat_service
     \<Rightarrow> completion_call list \<times> js_error option \<times> ('p, 's) chat_service" where
  "on_event proc a2aService now later ev s =
     (let sink = event_completion ev
      in case sendMessage proc a2aService now later (EventMessage (event_message ev)) s of
           (Some err, s') \<Rightarrow> ([ErrorCall err], completion_error sink err, s')
         | (None, s') \<Rightarrow>
             (case completion_next sink [] of
                Some err \<Rightarrow> ([Next [], ErrorCall err], completion_error sink err, s')
              | None \<Rightarrow>
                  (case completion_complete sink of
                     Some err \<Rightarrow>
                       ([Next [], Complete, ErrorCall err], completion_error sink err, s')
                   | None \<Rightarrow> ([Next [], Complete], None, s'))))"

section \<open>Sequences of calls\<close>

text \<open>
  A cycle is one call of \<^verbatim>\<open>sendMessage\<close>: how the service answers it, the two readings
  of the clock and the message. The cycles of a list run one after the other.
\<close>

type_synonym cycle = "a2a_service \<times> time \<times> time \<times> user_message"

fun run_cycles ::
  "('p, 's) model_processor \<Rightarrow> cycle list \<Rightarrow> ('p, 's) chat_service \<Rightarrow> ('p, 's) chat_service"
  where
  "run_cycles proc [] s = s"
| "run_cycles proc ((a2aService, now, later, message) # cs) s =
     run_cycles proc cs (snd (sendMessage proc a2aService now later message s))"

section \<open>Services and a processor to run the model with\<close>

text \<open>A service that answers every call with the same response, and one that rejects.\<close>

definition replies :: "send_message_success_response \<Rightarrow> a2a_service" where
  "replies r = (\<lambda>message c. Inr r)"

definition rejects :: "js_error \<Rightarrow> a2a_service" where
  "rejects e = (\<lambda>message c. Inl e)"

text \<open>
  A processor that keeps the messages it has received, in order, and whose surfaces
  are their number.
\<close>

definition recorder :: "(object list, nat) model_processor" where
  "recorder = \<lparr>getSurfaces = length, processMessages = (\<lambda>ms p. (None, p @ ms))\<rparr>"

text \<open>
  A completion whose methods all return normally, and one whose \<^verbatim>\<open>complete\<close> throws.
\<close>

definition quiet_completion :: completion where
  "quiet_completion =
     \<lparr>completion_next = (\<lambda>ms. None), completion_complete = None,
      completion_error = (\<lambda>err. None)\<rparr>"

definition complete_throws :: "js_error \<Rightarrow> completion" where
  "complete_throws e = quiet_completion\<lparr>completion_complete := Some e\<rparr>"

text \<open>A processor that throws on every batch.\<close>

definition thrower :: "js_error \<Rightarrow> (object list, nat) model_processor" where
  "thrower e = \<lparr>getSurfaces = length, processMessages = (\<lambda>ms p. (Some e, p))\<rparr>"

section \<open>The words of the specification\<close>

text \<open>
  The classification as the specification words it: the parts of the status message,
  or none when it is absent, then the parts of each artifact, artifact after artifact;
  for a message, its parts.
\<close>

fun parts_of_artifacts :: "artifact list \<Rightarrow> part list" where
  "parts_of_artifacts [] = []"
| "parts_of_artifacts (a # as) = artifact_parts a @ parts_of_artifacts as"

fun classify_spec :: "result \<Rightarrow> part list" where
  "classify_spec (Task t) =
     (case status_message (task_status t) of None \<Rightarrow> [] | Some m \<Rightarrow> message_parts m)
     @ (case artifacts t of None \<Rightarrow> [] | Some as \<Rightarrow> parts_of_artifacts as)"
| "classify_spec (Message m) = message_parts m"

text \<open>
  The terminal calls on a completion: \<^verbatim>\<open>complete\<close>, which ends a success, and
  \<^verbatim>\<open>error\<close>, which is the failure.
\<close>

fun terminal :: "completion_call \<Rightarrow> bool" where
  "terminal (Next ms) = False"
| "terminal Complete = True"
| "terminal (ErrorCall e) = True"

section \<open>The state around the call of the service\<close>

lemma createUserMessageContents_fields:
  "history (snd (createUserMessageContents message s)) = history s"
  "contextId (snd (createUserMessageContents message s)) = contextId s"
  "processor (snd (createUserMessageContents message s)) = processor s"
  "isA2aStreamOpen (snd (createUserMessageContents message s)) = isA2aStreamOpen s"
  by (simp_all add: createUserMessageContents_def uuid_def
        split: user_message.splits jsval.splits)

lemma before_await_history:
  "history (snd (sendMessage_before_await proc now message s)) =
     history s @
       [\<lparr>message_id = uuids s, context_id = contextId s, role = ui_user,
         contents = fst (createUserMessageContents message (snd (uuid s))),
         status = pending, created = now, lastUpdated = now\<rparr>,
        fst (sendMessage_before_await proc now message s)]"
  by (simp add: sendMessage_before_await_def Let_def split_beta
        createUserMessageContents_fields uuid_def)

lemma before_await_fields:
  "contextId (snd (sendMessage_before_await proc now message s)) = contextId s"
  "processor (snd (sendMessage_before_await proc now message s)) = processor s"
  "isA2aStreamOpen (snd (sendMessage_before_await proc now message s)) = True"
  by (simp_all add: sendMessage_before_await_def Let_def split_beta
        createUserMessageContents_fields uuid_def)

lemma before_await_agent:
  "context_id (fst (sendMessage_before_await proc now message s)) = contextId s"
  "role (fst (sendMessage_before_await proc now message s))
     = ui_agent ''MyCharts Agent'' ''rizz-agent.png''"
  "contents (fst (sendMessage_before_await proc now message s)) = []"
  "status (fst (sendMessage_before_await proc now message s)) = pending"
  "created (fst (sendMessage_before_await proc now message s)) = now"
  "lastUpdated (fst (sendMessage_before_await proc now message s)) = now"
  by (simp_all add: sendMessage_before_await_def Let_def split_beta)

lemma after_await_thrown:
  "fst (sendMessage_after_await proc later agent r s) =
     fst (processMessages proc (a2uiDataParts (agentResponseParts (result r))) (processor s))"
  by (simp add: sendMessage_after_await_def Let_def split_beta split: option.splits)

lemma after_await_contextId:
  "contextId (snd (sendMessage_after_await proc later agent r s)) =
     (case result_contextId (result r) of
        None \<Rightarrow> contextId s
      | Some c \<Rightarrow> if c = [] then contextId s else c)"
  by (simp add: sendMessage_after_await_def Let_def split_beta split: option.splits)

lemma after_await_history:
  "history (snd (sendMessage_after_await proc later agent r s)) =
     (case fst (sendMessage_after_await proc later agent r s) of
        Some err \<Rightarrow> history s
      | None \<Rightarrow> butlast (history s) @
          [agent\<lparr>contents := contents agent
                   @ new_contents (uuids s) (agentResponseParts (result r)),
                 lastUpdated := later, status := completed\<rparr>])"
  by (simp add: sendMessage_after_await_def Let_def split_beta split: option.splits)

lemma after_await_isA2aStreamOpen:
  "isA2aStreamOpen (snd (sendMessage_after_await proc later agent r s)) =
     (case fst (sendMessage_after_await proc later agent r s) of
        Some err \<Rightarrow> isA2aStreamOpen s
      | None \<Rightarrow> False)"
  by (simp add: sendMessage_after_await_def Let_def split_beta split: option.splits)

section \<open>One call, and calls one after the other\<close>

lemma sendMessage_rejected:
  assumes "a2aService \<lparr>request = [createUserMessagePart message]\<rparr> (Some (contextId s)) = Inl e"
  shows "sendMessage proc a2aService now later message s
           = (Some e, snd (sendMessage_before_await proc now message s))"
  using assms by (simp add: sendMessage_def split_beta before_await_fields)

lemma sendMessage_answered:
  assumes "a2aService \<lparr>request = [createUserMessagePart message]\<rparr> (Some (contextId s)) = Inr r"
  shows "sendMessage proc a2aService now later message s
           = sendMessage_after_await proc later (fst (sendMessage_before_await proc now message s))
               r (snd (sendMessage_before_await proc now message s))"
  using assms by (simp add: sendMessage_def split_beta before_await_fields)

lemma sendMessage_history:
  "\<exists>a. history (snd (sendMessage proc a2aService now later message s)) =
         history s @
           [\<lparr>message_id = uuids s, context_id = contextId s, role = ui_user,
             contents = fst (createUserMessageContents message (snd (uuid s))),
             status = pending, created = now, lastUpdated = now\<rparr>, a]
       \<and> context_id a = contextId s
       \<and> role a = ui_agent ''MyCharts Agent'' ''rizz-agent.png''
       \<and> status a = (if fst (sendMessage proc a2aService now later message s) = None
                      then completed else pending)
       \<and> (fst (sendMessage proc a2aService now later message s) \<noteq> None \<longrightarrow> contents a = [])"
proof (cases "a2aService \<lparr>request = [createUserMessagePart message]\<rparr> (Some (contextId s))")
  case (Inl e)
  show ?thesis
    using Inl by (simp add: sendMessage_rejected before_await_history before_await_agent)
next
  case (Inr r)
  show ?thesis
    using Inr by (simp add: sendMessage_answered after_await_history before_await_history
          before_await_agent butlast_append split: option.splits)
qed

lemma sendMessage_contextId:
  "contextId (snd (sendMessage proc a2aService now later message s)) =
     (case a2aService \<lparr>request = [createUserMessagePart message]\<rparr> (Some (contextId s)) of
        Inl e \<Rightarrow> contextId s
      | Inr r \<Rightarrow>
          (case result_contextId (result r) of
             None \<Rightarrow> contextId s
           | Some c \<Rightarrow> if c = [] then contextId s else c))"
  by (simp add: sendMessage_def split_beta before_await_fields after_await_contextId
        split: sum.splits option.splits)

lemma run_cycles_contextId:
  "contextId s \<noteq> [] \<Longrightarrow> contextId (run_cycles proc cs s) \<noteq> []"
proof (induction cs arbitrary: s)
  case Nil
  then show ?case by simp
next
  case (Cons c cs)
  obtain a2aService now later message where c: "c = (a2aService, now, later, message)"
    by (cases c) auto
  have "contextId (snd (sendMessage proc a2aService now later message s)) \<noteq> []"
    using Cons.prems by (simp add: sendMessage_contextId split: sum.splits option.splits)
  then show ?case
    using Cons.IH by (simp add: c)
qed

lemma run_cycles_history:
  "\<exists>rest. history (run_cycles proc cs s) = history s @ rest"
proof (induction cs arbitrary: s)
  case Nil
  then show ?case by simp
next
  case (Cons c cs)
  obtain a2aService now later message where c: "c = (a2aService, now, later, message)"
    by (cases c) auto
  obtain a u where "history (snd (sendMessage proc a2aService now later message s))
      = history s @ [u, a]"
    using sendMessage_history [of proc a2aService now later message s] by blast
  moreover obtain rest where
    "history (run_cycles proc cs (snd (sendMessage proc a2aService now later message s)))
       = history (snd (sendMessage proc a2aService now later message s)) @ rest"
    using Cons.IH by blast
  ultimately show ?case
    by (simp add: c)
qed

section \<open>The parts and their two projections\<close>

lemma concat_artifact_parts:
  "concat (map artifact_parts as) = parts_of_artifacts as"
  by (induction as) simp_all

lemma a2uiDataParts_append:
  "a2uiDataParts (xs @ ys) = a2uiDataParts xs @ a2uiDataParts ys"
  by (simp add: a2uiDataParts_def map_filter_def)

lemma to_contents_append:
  "to_contents n (xs @ ys) = to_contents n xs @ to_contents (n + length xs) ys"
  by (induction xs arbitrary: n) simp_all

lemma length_to_contents: "length (to_contents n xs) = length xs"
  by (induction xs arbitrary: n) simp_all

lemma new_contents_append:
  "new_contents n (xs @ ys)
     = new_contents n xs @ new_contents (n + length (new_contents n xs)) ys"
  by (simp add: new_contents_def to_contents_append length_to_contents)

lemma data_new_contents:
  "map data (new_contents n agentParts) = filter shown_in_chat agentParts"
proof -
  have "map data (to_contents k ps) = ps" for k ps
    by (induction ps arbitrary: k) simp_all
  then show ?thesis
    by (simp add: new_contents_def)
qed

lemma after_await_processor:
  "processor (snd (sendMessage_after_await proc later agent r s)) =
     snd (processMessages proc (a2uiDataParts (agentResponseParts (result r))) (processor s))"
  by (simp add: sendMessage_after_await_def Let_def split_beta split: option.splits)

lemma sendMessage_processor:
  assumes "a2aService \<lparr>request = [createUserMessagePart message]\<rparr> (Some (contextId s)) = Inr r"
  shows "processor (snd (sendMessage proc a2aService now later message s)) =
     snd (processMessages proc (a2uiDataParts (agentResponseParts (result r))) (processor s))"
  using assms
  by (simp add: sendMessage_answered after_await_processor before_await_fields)

lemma sendMessage_agent_contents:
  assumes "a2aService \<lparr>request = [createUserMessagePart message]\<rparr> (Some (contextId s)) = Inr r"
    and "fst (sendMessage proc a2aService now later message s) = None"
  shows "map data (contents (last (history (snd (sendMessage proc a2aService now later message s)))))
     = filter shown_in_chat (agentResponseParts (result r))"
  using assms
  by (simp add: sendMessage_answered after_await_history before_await_agent data_new_contents)

lemma on_event_calls:
  "fst (on_event proc a2aService now later ev s) =
     (case fst (sendMessage proc a2aService now later (EventMessage (event_message ev)) s) of
        Some err \<Rightarrow> [ErrorCall err]
      | None \<Rightarrow>
          (case completion_next (event_completion ev) [] of
             Some err \<Rightarrow> [Next [], ErrorCall err]
           | None \<Rightarrow>
               (case completion_complete (event_completion ev) of
                  Some err \<Rightarrow> [Next [], Complete, ErrorCall err]
                | None \<Rightarrow> [Next [], Complete])))"
  by (simp add: on_event_def Let_def split: prod.splits option.splits)

section \<open>The failing responses of the transport\<close>

text \<open>
  Claim C1, as the code has it. On a response that is not ok whose body parses to an
  object, \<^verbatim>\<open>sendMessage\<close> of the service reads the property \<^verbatim>\<open>error\<close> of the body and
  throws the \<^verbatim>\<open>Error\<close> made from it. On a response that is not ok whose body is not
  JSON, it rejects with the rejection of \<^verbatim>\<open>response.json()\<close> itself: no other error
  takes its place.
\<close>

theorem A2aService_sendMessage_failing_response:
  assumes "fetch \<lparr>body_parts = request message, body_supportedCatalogUris = uris,
                  body_context_id = c\<rparr> = Inr r"
    and "\<not> ok r"
  shows "(json r = Inr (JObj body) \<longrightarrow>
            A2aService_sendMessage fetch uris message c = Inl (Error (get body ''error'')))
       \<and> (json r = Inl parse_failure \<longrightarrow>
            A2aService_sendMessage fetch uris message c = Inl parse_failure)"
  using assms by (simp add: A2aService_sendMessage_def)

theorem A2aService_sendMessage_failing_response_witness:
  "A2aService_sendMessage
     (answers \<lparr>ok = False, json = Inr (JObj [(''error'', JStr ''boom'')])\<rparr>)
     [''catalog''] \<lparr>request = [TextPart ''hi'' None]\<rparr> (Some ''ctx'')
     = Inl (Error (JStr ''boom''))
   \<and> A2aService_sendMessage
     (answers \<lparr>ok = False, json = Inl (SyntaxError ''Unexpected token'')\<rparr>)
     [''catalog''] \<lparr>request = [TextPart ''hi'' None]\<rparr> (Some ''ctx'')
     = Inl (SyntaxError ''Unexpected token'')"
  using A2aService_sendMessage_failing_response
          [of "answers \<lparr>ok = False, json = Inr (JObj [(''error'', JStr ''boom'')])\<rparr>"
              "\<lparr>request = [TextPart ''hi'' None]\<rparr>" "[''catalog'']" "Some ''ctx''"
              "\<lparr>ok = False, json = Inr (JObj [(''error'', JStr ''boom'')])\<rparr>"
              "[(''error'', JStr ''boom'')]" "SyntaxError ''Unexpected token''"]
        A2aService_sendMessage_failing_response
          [of "answers \<lparr>ok = False, json = Inl (SyntaxError ''Unexpected token'')\<rparr>"
              "\<lparr>request = [TextPart ''hi'' None]\<rparr>" "[''catalog'']" "Some ''ctx''"
              "\<lparr>ok = False, json = Inl (SyntaxError ''Unexpected token'')\<rparr>"
              "[]" "SyntaxError ''Unexpected token''"]
  by (simp add: answers_def get_def)

text \<open>
  Claim C1, as it is stated, fails: on a response that is not ok with a body that is
  not JSON, the service rejects with the \<^verbatim>\<open>SyntaxError\<close> of the parse, not with an
  \<^verbatim>\<open>Error\<close> of its own that carries a fallback message.
\<close>

theorem A2aService_sendMessage_unparsable_counterexample:
  "A2aService_sendMessage
     (answers \<lparr>ok = False, json = Inl (SyntaxError ''Unexpected token'')\<rparr>)
     [] \<lparr>request = []\<rparr> None
     = Inl (SyntaxError ''Unexpected token'')"
  by (simp add: A2aService_sendMessage_def answers_def)

section \<open>The history of one call\<close>

text \<open>
  Claim C2. Whatever the service answers and whatever the processor does, a call of
  \<^verbatim>\<open>sendMessage\<close> leaves a history that is two elements longer than the one it
  started from.
\<close>

theorem sendMessage_history_length:
  "length (history (snd (sendMessage proc a2aService now later message s)))
     = length (history s) + 2"
proof (cases "a2aService \<lparr>request = [createUserMessagePart message]\<rparr> (Some (contextId s))")
  case (Inl rejected)
  then show ?thesis
    by (simp add: sendMessage_def split_beta before_await_fields before_await_history)
next
  case (Inr a2aResponse)
  then show ?thesis
    by (simp add: sendMessage_def split_beta before_await_fields before_await_history
          after_await_history split: option.splits)
qed

section \<open>The subscriber of the events\<close>

text \<open>
  Claim C3, as the code has it. For an event, the subscriber calls \<^verbatim>\<open>sendMessage\<close> with
  the message of the event and leaves the state that call left. When the promise
  rejects with \<open>err\<close>, its only call on the completion is \<^verbatim>\<open>error(err)\<close>. When the
  promise fulfils and \<^verbatim>\<open>next\<close> and \<^verbatim>\<open>complete\<close> of the completion return normally, its
  calls are \<^verbatim>\<open>next([])\<close> and then \<^verbatim>\<open>complete()\<close>. With such a completion exactly one of
  its calls is terminal.
\<close>

theorem on_event_one_terminal_call:
  "(fst (sendMessage proc a2aService now later (EventMessage (event_message ev)) s) = None
      \<and> completion_next (event_completion ev) [] = None
      \<and> completion_complete (event_completion ev) = None \<longrightarrow>
      fst (on_event proc a2aService now later ev s) = [Next [], Complete])
   \<and> (fst (sendMessage proc a2aService now later (EventMessage (event_message ev)) s) = Some err
      \<longrightarrow> fst (on_event proc a2aService now later ev s) = [ErrorCall err])
   \<and> snd (snd (on_event proc a2aService now later ev s))
       = snd (sendMessage proc a2aService now later (EventMessage (event_message ev)) s)
   \<and> (completion_next (event_completion ev) [] = None
      \<and> completion_complete (event_completion ev) = None \<longrightarrow>
      length (filter terminal (fst (on_event proc a2aService now later ev s))) = 1)"
proof (cases "sendMessage proc a2aService now later (EventMessage (event_message ev)) s")
  case (Pair settled s')
  show ?thesis
  proof (cases settled)
    case None
    with Pair show ?thesis
      by (simp add: on_event_def Let_def split: option.splits)
  next
    case (Some rejected)
    with Pair show ?thesis
      by (simp add: on_event_def Let_def)
  qed
qed

theorem on_event_one_terminal_call_witness:
  "fst (on_event recorder
          (replies \<lparr>result = Message \<lparr>message_parts = [TextPart ''hello'' None],
                                        message_contextId = Some ''ctx-1''\<rparr>\<rparr>)
          ''t0'' ''t1''
          \<lparr>event_message = [(''userAction'', JObj [(''name'', JStr ''click'')])],
           event_completion = quiet_completion\<rparr>
          (new_ChatService recorder []))
     = [Next [], Complete]
   \<and> fst (on_event recorder (rejects (Error (JStr ''boom'')))
          ''t0'' ''t1''
          \<lparr>event_message = [(''userAction'', JObj [(''name'', JStr ''click'')])],
           event_completion = quiet_completion\<rparr>
          (new_ChatService recorder []))
     = [ErrorCall (Error (JStr ''boom''))]
   \<and> fst (on_event (thrower (TypeError ''bad''))
          (replies \<lparr>result = Message \<lparr>message_parts = [TextPart ''hello'' None],
                                        message_contextId = Some ''ctx-1''\<rparr>\<rparr>)
          ''t0'' ''t1''
          \<lparr>event_message = [(''userAction'', JObj [(''name'', JStr ''click'')])],
           event_completion = quiet_completion\<rparr>
          (new_ChatService (thrower (TypeError ''bad'')) []))
     = [ErrorCall (TypeError ''bad'')]
   \<and> length (filter terminal (fst (on_event recorder
          (replies \<lparr>result = Message \<lparr>message_parts = [TextPart ''hello'' None],
                                        message_contextId = Some ''ctx-1''\<rparr>\<rparr>)
          ''t0'' ''t1''
          \<lparr>event_message = [(''userAction'', JObj [(''name'', JStr ''click'')])],
           event_completion = quiet_completion\<rparr>
          (new_ChatService recorder [])))) = 1"
proof -
  let ?r = "\<lparr>result = Message \<lparr>message_parts = [TextPart ''hello'' None],
                                 message_contextId = Some ''ctx-1''\<rparr>\<rparr>"
  let ?ev = "\<lparr>event_message = [(''userAction'', JObj [(''name'', JStr ''click'')])],
             event_completion = quiet_completion\<rparr>"
  have quiet: "completion_next (event_completion ?ev) [] = None
      \<and> completion_complete (event_completion ?ev) = None"
    by (simp add: quiet_completion_def)
  have fulfils: "fst (sendMessage recorder (replies ?r) ''t0'' ''t1''
      (EventMessage (event_message ?ev)) (new_ChatService recorder [])) = None"
    by (simp add: sendMessage_answered replies_def after_await_thrown recorder_def)
  have rejected: "fst (sendMessage recorder (rejects (Error (JStr ''boom''))) ''t0'' ''t1''
      (EventMessage (event_message ?ev)) (new_ChatService recorder []))
        = Some (Error (JStr ''boom''))"
    by (simp add: sendMessage_rejected rejects_def)
  have thrown: "fst (sendMessage (thrower (TypeError ''bad'')) (replies ?r) ''t0'' ''t1''
      (EventMessage (event_message ?ev)) (new_ChatService (thrower (TypeError ''bad'')) []))
        = Some (TypeError ''bad'')"
    by (simp add: sendMessage_answered replies_def after_await_thrown thrower_def)
  show ?thesis
    using on_event_one_terminal_call
            [where proc = "thrower (TypeError ''bad'')" and a2aService = "replies ?r"
               and now = "''t0''" and later = "''t1''" and ev = ?ev
               and s = "new_ChatService (thrower (TypeError ''bad'')) []"
               and err = "TypeError ''bad''"]
          thrown
          on_event_one_terminal_call
            [where proc = recorder and a2aService = "replies ?r" and now = "''t0''"
               and later = "''t1''" and ev = ?ev and s = "new_ChatService recorder []"]
          on_event_one_terminal_call
            [where proc = recorder and a2aService = "rejects (Error (JStr ''boom''))"
               and now = "''t0''" and later = "''t1''" and ev = ?ev
               and s = "new_ChatService recorder []" and err = "Error (JStr ''boom'')"]
          fulfils rejected quiet
    by blast
qed

text \<open>
  Claim C3, as it is stated, fails when a method of the completion throws: here
  \<^verbatim>\<open>sendMessage\<close> fulfils and \<^verbatim>\<open>complete()\<close> throws, so that the subscriber calls
  \<^verbatim>\<open>complete()\<close> and then \<^verbatim>\<open>error\<close>, two terminal calls.
\<close>

theorem on_event_complete_throws_counterexample:
  "fst (sendMessage recorder
          (replies \<lparr>result = Message \<lparr>message_parts = [TextPart ''hello'' None],
                                        message_contextId = Some ''ctx-1''\<rparr>\<rparr>)
          ''t0'' ''t1'' (EventMessage [(''userAction'', JObj [(''name'', JStr ''click'')])])
          (new_ChatService recorder [])) = None
   \<and> fst (on_event recorder
          (replies \<lparr>result = Message \<lparr>message_parts = [TextPart ''hello'' None],
                                        message_contextId = Some ''ctx-1''\<rparr>\<rparr>)
          ''t0'' ''t1''
          \<lparr>event_message = [(''userAction'', JObj [(''name'', JStr ''click'')])],
           event_completion = complete_throws (TypeError ''closed'')\<rparr>
          (new_ChatService recorder []))
     = [Next [], Complete, ErrorCall (TypeError ''closed'')]
   \<and> length (filter terminal (fst (on_event recorder
          (replies \<lparr>result = Message \<lparr>message_parts = [TextPart ''hello'' None],
                                        message_contextId = Some ''ctx-1''\<rparr>\<rparr>)
          ''t0'' ''t1''
          \<lparr>event_message = [(''userAction'', JObj [(''name'', JStr ''click'')])],
           event_completion = complete_throws (TypeError ''closed'')\<rparr>
          (new_ChatService recorder [])))) = 2"
proof -
  let ?r = "\<lparr>result = Message \<lparr>message_parts = [TextPart ''hello'' None],
                                 message_contextId = Some ''ctx-1''\<rparr>\<rparr>"
  have fulfils: "fst (sendMessage recorder (replies ?r) ''t0'' ''t1''
      (EventMessage [(''userAction'', JObj [(''name'', JStr ''click'')])])
      (new_ChatService recorder [])) = None"
    by (simp add: sendMessage_answered replies_def after_await_thrown recorder_def)
  have throws: "completion_next (complete_throws (TypeError ''closed'')) [] = None
      \<and> completion_complete (complete_throws (TypeError ''closed''))
          = Some (TypeError ''closed'')"
    by (simp add: complete_throws_def quiet_completion_def)
  show ?thesis
    using fulfils throws by (simp add: on_event_calls)
qed

section \<open>A call that the service rejects\<close>

text \<open>
  Claim C4. When the service rejects with \<open>e\<close>, the promise of \<^verbatim>\<open>sendMessage\<close> rejects
  with \<open>e\<close>, the indicator \<^verbatim>\<open>isA2aStreamOpen\<close> is left true, and the agent message that
  the call appended is pending and has no contents; it is still that message after any
  further cycles.
\<close>

theorem sendMessage_transport_rejects:
  assumes "a2aService \<lparr>request = [createUserMessagePart message]\<rparr> (Some (contextId s)) = Inl e"
  shows "fst (sendMessage proc a2aService now later message s) = Some e
       \<and> isA2aStreamOpen (snd (sendMessage proc a2aService now later message s)) = True
       \<and> (\<exists>u a. history (snd (sendMessage proc a2aService now later message s))
                   = history s @ [u, a]
                \<and> role a = ui_agent ''MyCharts Agent'' ''rizz-agent.png''
                \<and> status a = pending \<and> contents a = []
                \<and> history (run_cycles proc cs
                              (snd (sendMessage proc a2aService now later message s)))
                      ! Suc (length (history s)) = a)"
proof -
  have rejected: "fst (sendMessage proc a2aService now later message s) = Some e"
    using assms by (simp add: sendMessage_rejected)
  have "isA2aStreamOpen (snd (sendMessage proc a2aService now later message s)) = True"
    using assms by (simp add: sendMessage_rejected before_await_fields)
  moreover obtain u a where a:
    "history (snd (sendMessage proc a2aService now later message s)) = history s @ [u, a]"
    "role a = ui_agent ''MyCharts Agent'' ''rizz-agent.png''"
    "status a = pending" "contents a = []"
    using sendMessage_history [of proc a2aService now later message s] rejected by auto
  moreover obtain rest where
    "history (run_cycles proc cs (snd (sendMessage proc a2aService now later message s)))
       = history (snd (sendMessage proc a2aService now later message s)) @ rest"
    using run_cycles_history by blast
  then have "history (run_cycles proc cs (snd (sendMessage proc a2aService now later message s)))
       ! Suc (length (history s)) = a"
    by (simp add: a(1) nth_append)
  ultimately show ?thesis
    using rejected by blast
qed

theorem sendMessage_transport_rejects_witness:
  "fst (sendMessage recorder (rejects (Error (JStr ''boom''))) ''t0'' ''t1''
          (StringMessage ''hi'') (new_ChatService recorder []))
     = Some (Error (JStr ''boom''))
   \<and> isA2aStreamOpen (snd (sendMessage recorder (rejects (Error (JStr ''boom''))) ''t0'' ''t1''
          (StringMessage ''hi'') (new_ChatService recorder []))) = True
   \<and> status (history (run_cycles recorder
          [(replies \<lparr>result = Message \<lparr>message_parts = [TextPart ''hello'' None],
                                         message_contextId = Some ''ctx-1''\<rparr>\<rparr>,
            ''t2'', ''t3'', StringMessage ''again'')]
          (snd (sendMessage recorder (rejects (Error (JStr ''boom''))) ''t0'' ''t1''
                  (StringMessage ''hi'') (new_ChatService recorder [])))) ! 1) = pending"
  using sendMessage_transport_rejects
          [where proc = recorder and a2aService = "rejects (Error (JStr ''boom''))"
             and now = "''t0''" and later = "''t1''" and message = "StringMessage ''hi''"
             and s = "new_ChatService recorder []" and e = "Error (JStr ''boom'')"
             and cs = "[(replies \<lparr>result = Message \<lparr>message_parts = [TextPart ''hello'' None],
                                                     message_contextId = Some ''ctx-1''\<rparr>\<rparr>,
                        ''t2'', ''t3'', StringMessage ''again'')]"]
  by (auto simp add: rejects_def new_ChatService_def)

section \<open>The context id\<close>

text \<open>
  Claim C5. The context id of a new service is empty. A cycle whose response carries a
  context id (a string that is not empty) sets it to that value; a cycle whose response
  carries none leaves it as it was; and a context id that is not empty is not empty after
  any sequence of cycles.
\<close>

theorem contextId_never_reverts:
  "contextId (new_ChatService proc p) = []
   \<and> (a2aService \<lparr>request = [createUserMessagePart message]\<rparr> (Some (contextId s)) = Inr r
        \<and> result_contextId (result r) = Some c \<and> c \<noteq> [] \<longrightarrow>
      contextId (snd (sendMessage proc a2aService now later message s)) = c)
   \<and> (a2aService \<lparr>request = [createUserMessagePart message]\<rparr> (Some (contextId s)) = Inr r
        \<and> (result_contextId (result r) = None \<or> result_contextId (result r) = Some []) \<longrightarrow>
      contextId (snd (sendMessage proc a2aService now later message s)) = contextId s)
   \<and> (contextId s \<noteq> [] \<longrightarrow> contextId (run_cycles proc cs s) \<noteq> [])"
  using run_cycles_contextId [of s proc cs]
  by (auto simp add: new_ChatService_def sendMessage_contextId)

theorem contextId_never_reverts_witness:
  "contextId (new_ChatService recorder []) = []
   \<and> contextId (snd (sendMessage recorder
          (replies \<lparr>result = Message \<lparr>message_parts = [TextPart ''hello'' None],
                                        message_contextId = Some ''ctx-1''\<rparr>\<rparr>)
          ''t0'' ''t1'' (StringMessage ''hi'') (new_ChatService recorder []))) = ''ctx-1''
   \<and> contextId (snd (sendMessage recorder
          (replies \<lparr>result = Message \<lparr>message_parts = [], message_contextId = None\<rparr>\<rparr>)
          ''t2'' ''t3'' (StringMessage ''again'')
          (snd (sendMessage recorder
             (replies \<lparr>result = Message \<lparr>message_parts = [TextPart ''hello'' None],
                                           message_contextId = Some ''ctx-1''\<rparr>\<rparr>)
             ''t0'' ''t1'' (StringMessage ''hi'') (new_ChatService recorder []))))) = ''ctx-1''
   \<and> contextId (run_cycles recorder
          [(replies \<lparr>result = Message \<lparr>message_parts = [], message_contextId = Some []\<rparr>\<rparr>,
            ''t2'', ''t3'', StringMessage ''again''),
           (rejects (Error (JStr ''boom'')), ''t4'', ''t5'', StringMessage ''more'')]
          (snd (sendMessage recorder
             (replies \<lparr>result = Message \<lparr>message_parts = [TextPart ''hello'' None],
                                           message_contextId = Some ''ctx-1''\<rparr>\<rparr>)
             ''t0'' ''t1'' (StringMessage ''hi'') (new_ChatService recorder [])))) \<noteq> []"
proof -
  let ?r1 = "\<lparr>result = Message \<lparr>message_parts = [TextPart ''hello'' None],
                                  message_contextId = Some ''ctx-1''\<rparr>\<rparr>"
  let ?r0 = "\<lparr>result = Message \<lparr>message_parts = [], message_contextId = None\<rparr>\<rparr>"
  let ?s0 = "new_ChatService recorder [] :: (object list, nat) chat_service"
  let ?s1 = "snd (sendMessage recorder (replies ?r1) ''t0'' ''t1'' (StringMessage ''hi'') ?s0)"
  have first: "contextId ?s0 = [] \<and> contextId ?s1 = ''ctx-1''"
    using contextId_never_reverts
            [where proc = recorder and p = "[]" and a2aService = "replies ?r1"
               and message = "StringMessage ''hi''" and s = ?s0 and r = ?r1
               and c = "''ctx-1''" and now = "''t0''" and later = "''t1''"]
    by (simp add: replies_def result_contextId_def)
  have later: "contextId (snd (sendMessage recorder (replies ?r0) ''t2'' ''t3''
                  (StringMessage ''again'') ?s1)) = contextId ?s1
      \<and> contextId (run_cycles recorder
          [(replies \<lparr>result = Message \<lparr>message_parts = [], message_contextId = Some []\<rparr>\<rparr>,
            ''t2'', ''t3'', StringMessage ''again''),
           (rejects (Error (JStr ''boom'')), ''t4'', ''t5'', StringMessage ''more'')] ?s1) \<noteq> []"
    using contextId_never_reverts
            [where proc = recorder and a2aService = "replies ?r0"
               and message = "StringMessage ''again''" and s = ?s1 and r = ?r0
               and now = "''t2''" and later = "''t3''"
               and cs = "[(replies \<lparr>result = Message \<lparr>message_parts = [],
                                               message_contextId = Some []\<rparr>\<rparr>,
                           ''t2'', ''t3'', StringMessage ''again''),
                          (rejects (Error (JStr ''boom'')), ''t4'', ''t5'',
                           StringMessage ''more'')]"]
          first
    by (simp add: replies_def result_contextId_def)
  show ?thesis
    using first later by simp
qed

section \<open>The classification of the response\<close>

text \<open>
  Claim C6. For a task, the parts are those of the status message (none when it is
  absent) followed by the parts of each artifact, the artifacts in the order of their
  array and the parts of each in their own order; for a message, they are the parts of
  the message. This is the classification as the specification words it.
\<close>

theorem agentResponseParts_order:
  "agentResponseParts (Task t)
     = (case status_message (task_status t) of None \<Rightarrow> [] | Some m \<Rightarrow> message_parts m)
       @ parts_of_artifacts (case artifacts t of None \<Rightarrow> [] | Some as \<Rightarrow> as)
   \<and> agentResponseParts (Message m) = message_parts m
   \<and> agentResponseParts r = classify_spec r"
  by (cases r)
    (simp_all add: agentResponseParts_def flatMap_def concat_artifact_parts split: option.splits)

section \<open>The routing of the parts\<close>

text \<open>
  Claim C7, as the code has it. A data part whose data is \<^verbatim>\<open>{beginRendering: X}\<close> with
  \<open>X\<close> truthy puts the message \<^verbatim>\<open>{beginRendering: X}\<close> once among the messages for the
  processor, at its place, and one new content that wraps the part among the contents of
  the agent message, at its place.
\<close>

theorem beginRendering_in_both:
  assumes "truthy X"
  shows "a2uiDataParts (before @ [DataPart [(''beginRendering'', X)] m] @ after)
           = a2uiDataParts before @ [[(''beginRendering'', X)]] @ a2uiDataParts after
       \<and> new_contents n (before @ [DataPart [(''beginRendering'', X)] m] @ after)
           = new_contents n before
             @ [\<lparr>content_id = n + length (new_contents n before),
                 data = DataPart [(''beginRendering'', X)] m\<rparr>]
             @ new_contents (Suc (n + length (new_contents n before))) after"
proof -
  let ?p = "DataPart [(''beginRendering'', X)] m"
  have "a2uiDataParts [?p] = [[(''beginRendering'', X)]]"
    using assms by (simp add: a2uiDataParts_def map_filter_def get_def)
  then have commands: "a2uiDataParts (?p # after) = [(''beginRendering'', X)] # a2uiDataParts after"
    using a2uiDataParts_append [of "[?p]" after] by simp
  have "new_contents k [?p] = [\<lparr>content_id = k, data = ?p\<rparr>]" for k
    by (simp add: new_contents_def has_key_def)
  then have shown: "new_contents k (?p # after)
      = \<lparr>content_id = k, data = ?p\<rparr> # new_contents (Suc k) after" for k
    using new_contents_append [of k "[?p]" after] by simp
  show ?thesis
    by (simp add: a2uiDataParts_append new_contents_append commands shown)
qed

theorem beginRendering_in_both_witness:
  "a2uiDataParts
     ([TextPart ''working'' None]
      @ [DataPart [(''beginRendering'', JObj [(''surfaceId'', JStr ''main'')])] None]
      @ [DataPart [(''surfaceUpdate'', JObj [])] None])
     = [[(''beginRendering'', JObj [(''surfaceId'', JStr ''main'')])],
        [(''surfaceUpdate'', JObj [])]]
   \<and> new_contents 7
     ([TextPart ''working'' None]
      @ [DataPart [(''beginRendering'', JObj [(''surfaceId'', JStr ''main'')])] None]
      @ [DataPart [(''surfaceUpdate'', JObj [])] None])
     = [\<lparr>content_id = 7, data = TextPart ''working'' None\<rparr>,
        \<lparr>content_id = 8,
         data = DataPart [(''beginRendering'', JObj [(''surfaceId'', JStr ''main'')])] None\<rparr>]"
  using beginRendering_in_both
          [where X = "JObj [(''surfaceId'', JStr ''main'')]"
             and before = "[TextPart ''working'' None]"
             and after = "[DataPart [(''surfaceUpdate'', JObj [])] None]"
             and m = None and n = 7]
  by (simp add: a2uiDataParts_def map_filter_def get_def new_contents_def has_key_def)

text \<open>
  Claim C7, as it is stated, fails for a falsy \<open>X\<close>: the part
  \<^verbatim>\<open>{kind: 'data', data: {beginRendering: null}}\<close> gives no message for the processor,
  and one content.
\<close>

theorem beginRendering_falsy_counterexample:
  "a2uiDataParts [DataPart [(''beginRendering'', JNull)] None] = []
   \<and> new_contents 0 [DataPart [(''beginRendering'', JNull)] None]
       = [\<lparr>content_id = 0, data = DataPart [(''beginRendering'', JNull)] None\<rparr>]"
  by (simp add: a2uiDataParts_def map_filter_def get_def new_contents_def has_key_def)

text \<open>
  Claim C8. A data part puts among the messages for the processor, at its place, the
  message of the first key, in the order \<^verbatim>\<open>beginRendering\<close>, \<^verbatim>\<open>surfaceUpdate\<close>,
  \<^verbatim>\<open>dataModelUpdate\<close>, \<^verbatim>\<open>deleteSurface\<close>, whose value is truthy, and only that one; it
  puts none when no value is truthy. A data part that has the key \<^verbatim>\<open>beginRendering\<close> with
  a falsy value puts no \<^verbatim>\<open>beginRendering\<close> message there, and still one content that
  wraps it, at its place, among the contents. In a call that the service answers, these
  messages are the batch that the processor receives; when the call fulfils, these
  contents are the contents of the completed agent message.
\<close>

theorem command_priority_and_presence:
  "a2uiDataParts (before @ [DataPart d m] @ after)
     = a2uiDataParts before
       @ (case find (\<lambda>k. truthy (get d k))
                 [''beginRendering'', ''surfaceUpdate'', ''dataModelUpdate'', ''deleteSurface''] of
            None \<Rightarrow> []
          | Some k \<Rightarrow> [[(k, get d k)]])
       @ a2uiDataParts after
   \<and> to_ServerToClientMessage (DataPart d m)
     = map_option (\<lambda>k. [(k, get d k)])
         (find (\<lambda>k. truthy (get d k))
            [''beginRendering'', ''surfaceUpdate'', ''dataModelUpdate'', ''deleteSurface''])
   \<and> (has_key ''beginRendering'' d \<and> \<not> truthy (get d ''beginRendering'') \<longrightarrow>
        (\<forall>v. to_ServerToClientMessage (DataPart d m) \<noteq> Some [(''beginRendering'', v)])
        \<and> (\<forall>v. [(''beginRendering'', v)] \<notin> set (a2uiDataParts [DataPart d m]))
        \<and> new_contents n [DataPart d m] = [\<lparr>content_id = n, data = DataPart d m\<rparr>]
        \<and> new_contents n (before @ [DataPart d m] @ after)
            = new_contents n before
              @ [\<lparr>content_id = n + length (new_contents n before), data = DataPart d m\<rparr>]
              @ new_contents (Suc (n + length (new_contents n before))) after)
   \<and> (a2aService \<lparr>request = [createUserMessagePart message]\<rparr> (Some (contextId s)) = Inr r
        \<longrightarrow>
        processor (snd (sendMessage proc a2aService now later message s))
          = snd (processMessages proc (a2uiDataParts (agentResponseParts (result r)))
                   (processor s))
        \<and> (fst (sendMessage proc a2aService now later message s) = None \<longrightarrow>
             map data (contents (last (history
                 (snd (sendMessage proc a2aService now later message s)))))
               = filter shown_in_chat (agentResponseParts (result r))))"
proof -
  let ?p = "DataPart d m"
  let ?keys = "[''beginRendering'', ''surfaceUpdate'', ''dataModelUpdate'', ''deleteSurface'']"
  have callback: "to_ServerToClientMessage ?p
      = map_option (\<lambda>k. [(k, get d k)]) (find (\<lambda>k. truthy (get d k)) ?keys)"
    by simp
  have single: "a2uiDataParts [?p]
      = (case find (\<lambda>k. truthy (get d k)) ?keys of None \<Rightarrow> [] | Some k \<Rightarrow> [[(k, get d k)]])"
    by (simp add: a2uiDataParts_def map_filter_def)
  have commands: "a2uiDataParts (before @ [?p] @ after)
      = a2uiDataParts before @ a2uiDataParts [?p] @ a2uiDataParts after"
    using a2uiDataParts_append [of before "[?p] @ after"] a2uiDataParts_append [of "[?p]" after]
    by simp
  have falsy: "(\<forall>v. to_ServerToClientMessage ?p \<noteq> Some [(''beginRendering'', v)])
      \<and> (\<forall>v. [(''beginRendering'', v)] \<notin> set (a2uiDataParts [?p]))
      \<and> new_contents n [?p] = [\<lparr>content_id = n, data = ?p\<rparr>]
      \<and> new_contents n (before @ [?p] @ after)
          = new_contents n before
            @ [\<lparr>content_id = n + length (new_contents n before), data = ?p\<rparr>]
            @ new_contents (Suc (n + length (new_contents n before))) after"
    if present: "has_key ''beginRendering'' d" and no: "\<not> truthy (get d ''beginRendering'')"
  proof -
    have one: "new_contents k [?p] = [\<lparr>content_id = k, data = ?p\<rparr>]" for k
      using present by (simp add: new_contents_def)
    then have "new_contents k (?p # after)
        = \<lparr>content_id = k, data = ?p\<rparr> # new_contents (Suc k) after" for k
      using new_contents_append [of k "[?p]" after] by simp
    then have "new_contents n (before @ [?p] @ after)
        = new_contents n before
          @ [\<lparr>content_id = n + length (new_contents n before), data = ?p\<rparr>]
          @ new_contents (Suc (n + length (new_contents n before))) after"
      by (simp add: new_contents_append)
    moreover have "\<forall>v. to_ServerToClientMessage ?p \<noteq> Some [(''beginRendering'', v)]"
      using no by simp
    moreover have "\<forall>v. [(''beginRendering'', v)] \<notin> set (a2uiDataParts [?p])"
      using no by (simp add: a2uiDataParts_def map_filter_def)
    ultimately show ?thesis
      using one by blast
  qed
  have wiring: "processor (snd (sendMessage proc a2aService now later message s))
        = snd (processMessages proc (a2uiDataParts (agentResponseParts (result r)))
                 (processor s))
      \<and> (fst (sendMessage proc a2aService now later message s) = None \<longrightarrow>
           map data (contents (last (history
               (snd (sendMessage proc a2aService now later message s)))))
             = filter shown_in_chat (agentResponseParts (result r)))"
    if "a2aService \<lparr>request = [createUserMessagePart message]\<rparr> (Some (contextId s)) = Inr r"
    using that sendMessage_processor [of a2aService message s r proc now later]
      sendMessage_agent_contents [of a2aService message s r proc now later]
    by blast
  show ?thesis
    using callback single commands falsy wiring by (simp only:) blast
qed

theorem command_priority_and_presence_witness:
  "has_key ''beginRendering''
     [(''beginRendering'', JBool False), (''deleteSurface'', JObj []),
      (''surfaceUpdate'', JObj [(''surfaceId'', JStr ''main'')])]
   \<and> \<not> truthy (get [(''beginRendering'', JBool False), (''deleteSurface'', JObj []),
                      (''surfaceUpdate'', JObj [(''surfaceId'', JStr ''main'')])]
                  ''beginRendering'')
   \<and> a2uiDataParts
        ([TextPart ''working'' None]
         @ [DataPart [(''beginRendering'', JBool False), (''deleteSurface'', JObj []),
                      (''surfaceUpdate'', JObj [(''surfaceId'', JStr ''main'')])] None]
         @ [DataPart [(''deleteSurface'', JObj [(''surfaceId'', JStr ''old'')])] None])
       = [[(''surfaceUpdate'', JObj [(''surfaceId'', JStr ''main'')])],
          [(''deleteSurface'', JObj [(''surfaceId'', JStr ''old'')])]]
   \<and> new_contents 7
        ([TextPart ''working'' None]
         @ [DataPart [(''beginRendering'', JBool False), (''deleteSurface'', JObj []),
                      (''surfaceUpdate'', JObj [(''surfaceId'', JStr ''main'')])] None]
         @ [DataPart [(''deleteSurface'', JObj [(''surfaceId'', JStr ''old'')])] None])
       = [\<lparr>content_id = 7, data = TextPart ''working'' None\<rparr>,
          \<lparr>content_id = 8,
           data = DataPart [(''beginRendering'', JBool False), (''deleteSurface'', JObj []),
                            (''surfaceUpdate'', JObj [(''surfaceId'', JStr ''main'')])] None\<rparr>]
   \<and> processor (snd (sendMessage recorder
        (replies \<lparr>result = Message
           \<lparr>message_parts =
              [DataPart [(''beginRendering'', JBool False), (''deleteSurface'', JObj []),
                         (''surfaceUpdate'', JObj [(''surfaceId'', JStr ''main'')])] None],
            message_contextId = None\<rparr>\<rparr>)
        ''t0'' ''t1'' (StringMessage ''hi'') (new_ChatService recorder [])))
       = [[(''surfaceUpdate'', JObj [(''surfaceId'', JStr ''main'')])]]
   \<and> map data (contents (last (history (snd (sendMessage recorder
        (replies \<lparr>result = Message
           \<lparr>message_parts =
              [DataPart [(''beginRendering'', JBool False), (''deleteSurface'', JObj []),
                         (''surfaceUpdate'', JObj [(''surfaceId'', JStr ''main'')])] None],
            message_contextId = None\<rparr>\<rparr>)
        ''t0'' ''t1'' (StringMessage ''hi'') (new_ChatService recorder []))))))
       = [DataPart [(''beginRendering'', JBool False), (''deleteSurface'', JObj []),
                    (''surfaceUpdate'', JObj [(''surfaceId'', JStr ''main'')])] None]"
proof -
  let ?d = "[(''beginRendering'', JBool False), (''deleteSurface'', JObj []),
             (''surfaceUpdate'', JObj [(''surfaceId'', JStr ''main'')])]"
  let ?r = "\<lparr>result = Message \<lparr>message_parts = [DataPart ?d None],
                                 message_contextId = None\<rparr>\<rparr>"
  let ?s0 = "new_ChatService recorder [] :: (object list, nat) chat_service"
  have present: "has_key ''beginRendering'' ?d \<and> \<not> truthy (get ?d ''beginRendering'')"
    by (simp add: has_key_def get_def)
  have found: "find (\<lambda>k. truthy (get ?d k))
      [''beginRendering'', ''surfaceUpdate'', ''dataModelUpdate'', ''deleteSurface'']
        = Some ''surfaceUpdate''"
    by (simp add: get_def)
  have got: "get ?d ''surfaceUpdate'' = JObj [(''surfaceId'', JStr ''main'')]"
    by (simp add: get_def)
  have around: "a2uiDataParts [TextPart ''working'' None] = []
      \<and> a2uiDataParts [DataPart [(''deleteSurface'', JObj [(''surfaceId'', JStr ''old'')])] None]
          = [[(''deleteSurface'', JObj [(''surfaceId'', JStr ''old'')])]]
      \<and> new_contents 7 [TextPart ''working'' None]
          = [\<lparr>content_id = 7, data = TextPart ''working'' None\<rparr>]
      \<and> new_contents 9
            [DataPart [(''deleteSurface'', JObj [(''surfaceId'', JStr ''old'')])] None] = []"
    by (simp add: a2uiDataParts_def map_filter_def get_def new_contents_def has_key_def)
  have answered: "replies ?r \<lparr>request = [createUserMessagePart (StringMessage ''hi'')]\<rparr>
      (Some (contextId ?s0)) = Inr ?r"
    by (simp add: replies_def)
  have fulfils: "fst (sendMessage recorder (replies ?r) ''t0'' ''t1'' (StringMessage ''hi'') ?s0)
      = None"
    by (simp add: sendMessage_answered replies_def after_await_thrown recorder_def)
  have parts: "agentResponseParts (result ?r) = [DataPart ?d None]"
    by (simp add: agentResponseParts_def)
  have start: "processor ?s0 = []"
    by (simp add: new_ChatService_def)
  have shown: "filter shown_in_chat [DataPart ?d None] = [DataPart ?d None]"
    by (simp add: has_key_def)
  have received: "snd (processMessages recorder
      [[(''surfaceUpdate'', JObj [(''surfaceId'', JStr ''main'')])]] [])
        = [[(''surfaceUpdate'', JObj [(''surfaceId'', JStr ''main'')])]]"
    by (simp add: recorder_def)
  have here: "a2uiDataParts
        ([TextPart ''working'' None] @ [DataPart ?d None]
         @ [DataPart [(''deleteSurface'', JObj [(''surfaceId'', JStr ''old'')])] None])
       = [[(''surfaceUpdate'', JObj [(''surfaceId'', JStr ''main'')])],
          [(''deleteSurface'', JObj [(''surfaceId'', JStr ''old'')])]]
     \<and> new_contents 7
        ([TextPart ''working'' None] @ [DataPart ?d None]
         @ [DataPart [(''deleteSurface'', JObj [(''surfaceId'', JStr ''old'')])] None])
       = [\<lparr>content_id = 7, data = TextPart ''working'' None\<rparr>,
          \<lparr>content_id = 8, data = DataPart ?d None\<rparr>]"
    using command_priority_and_presence
            [where d = ?d and m = None and n = 7 and before = "[TextPart ''working'' None]"
               and after = "[DataPart [(''deleteSurface'',
                                        JObj [(''surfaceId'', JStr ''old'')])] None]"]
          present found got around
    by (simp add: a2uiDataParts_def map_filter_def get_def new_contents_def has_key_def)
  have single: "a2uiDataParts [DataPart ?d None]
      = [[(''surfaceUpdate'', JObj [(''surfaceId'', JStr ''main'')])]]"
    by (simp add: a2uiDataParts_def map_filter_def get_def)
  have wired: "processor (snd (sendMessage recorder (replies ?r) ''t0'' ''t1''
        (StringMessage ''hi'') ?s0))
       = [[(''surfaceUpdate'', JObj [(''surfaceId'', JStr ''main'')])]]
     \<and> map data (contents (last (history (snd (sendMessage recorder (replies ?r) ''t0'' ''t1''
        (StringMessage ''hi'') ?s0))))) = [DataPart ?d None]"
    using command_priority_and_presence
            [where a2aService = "replies ?r" and message = "StringMessage ''hi''" and s = ?s0
               and r = ?r and proc = recorder and now = "''t0''" and later = "''t1''"]
          answered fulfils parts start shown received single
    by simp
  show ?thesis
    using present here wired by simp
qed

section \<open>The two messages of a cycle\<close>

text \<open>
  Claim C9. The user message of a call is created pending, and after the call and any
  further cycles the history still holds it, unchanged, at its place; a call that
  fulfils leaves it followed by the completed agent message.
\<close>

theorem user_turn_stays_pending:
  "history (run_cycles proc cs (snd (sendMessage proc a2aService now later message s)))
       ! length (history s)
     = \<lparr>message_id = uuids s, context_id = contextId s, role = ui_user,
        contents = fst (createUserMessageContents message (snd (uuid s))),
        status = pending, created = now, lastUpdated = now\<rparr>
   \<and> (fst (sendMessage proc a2aService now later message s) = None \<longrightarrow>
        (\<exists>a. history (snd (sendMessage proc a2aService now later message s))
               = history s @
                   [\<lparr>message_id = uuids s, context_id = contextId s, role = ui_user,
                     contents = fst (createUserMessageContents message (snd (uuid s))),
                     status = pending, created = now, lastUpdated = now\<rparr>, a]
             \<and> status a = completed))"
proof -
  obtain a where a:
    "history (snd (sendMessage proc a2aService now later message s)) =
       history s @
         [\<lparr>message_id = uuids s, context_id = contextId s, role = ui_user,
           contents = fst (createUserMessageContents message (snd (uuid s))),
           status = pending, created = now, lastUpdated = now\<rparr>, a]"
    "status a = (if fst (sendMessage proc a2aService now later message s) = None
                 then completed else pending)"
    using sendMessage_history [of proc a2aService now later message s] by blast
  obtain rest where
    "history (run_cycles proc cs (snd (sendMessage proc a2aService now later message s)))
       = history (snd (sendMessage proc a2aService now later message s)) @ rest"
    using run_cycles_history by blast
  then have "history (run_cycles proc cs (snd (sendMessage proc a2aService now later message s)))
       ! length (history s)
     = \<lparr>message_id = uuids s, context_id = contextId s, role = ui_user,
        contents = fst (createUserMessageContents message (snd (uuid s))),
        status = pending, created = now, lastUpdated = now\<rparr>"
    by (simp add: a(1) nth_append)
  then show ?thesis
    using a by auto
qed

theorem user_turn_stays_pending_witness:
  "fst (sendMessage recorder
          (replies \<lparr>result = Message \<lparr>message_parts = [TextPart ''hello'' None],
                                        message_contextId = Some ''ctx-1''\<rparr>\<rparr>)
          ''t0'' ''t1'' (StringMessage ''hi'') (new_ChatService recorder [])) = None
   \<and> history (run_cycles recorder
          [(replies \<lparr>result = Message \<lparr>message_parts = [], message_contextId = None\<rparr>\<rparr>,
            ''t2'', ''t3'', StringMessage ''again'')]
          (snd (sendMessage recorder
             (replies \<lparr>result = Message \<lparr>message_parts = [TextPart ''hello'' None],
                                           message_contextId = Some ''ctx-1''\<rparr>\<rparr>)
             ''t0'' ''t1'' (StringMessage ''hi'') (new_ChatService recorder [])))) ! 0
     = \<lparr>message_id = 0, context_id = [], role = ui_user,
        contents = [\<lparr>content_id = 1, data = TextPart ''hi'' None\<rparr>],
        status = pending, created = ''t0'', lastUpdated = ''t0''\<rparr>
   \<and> (\<exists>a. history (snd (sendMessage recorder
             (replies \<lparr>result = Message \<lparr>message_parts = [TextPart ''hello'' None],
                                           message_contextId = Some ''ctx-1''\<rparr>\<rparr>)
             ''t0'' ''t1'' (StringMessage ''hi'') (new_ChatService recorder [])))
          = [\<lparr>message_id = 0, context_id = [], role = ui_user,
              contents = [\<lparr>content_id = 1, data = TextPart ''hi'' None\<rparr>],
              status = pending, created = ''t0'', lastUpdated = ''t0''\<rparr>, a]
        \<and> status a = completed)"
proof -
  let ?r1 = "\<lparr>result = Message \<lparr>message_parts = [TextPart ''hello'' None],
                                  message_contextId = Some ''ctx-1''\<rparr>\<rparr>"
  let ?s0 = "new_ChatService recorder [] :: (object list, nat) chat_service"
  have fulfils: "fst (sendMessage recorder (replies ?r1) ''t0'' ''t1'' (StringMessage ''hi'') ?s0)
      = None"
    by (simp add: sendMessage_answered replies_def after_await_thrown recorder_def)
  have start: "history ?s0 = [] \<and> uuids ?s0 = 0 \<and> contextId ?s0 = []
      \<and> fst (createUserMessageContents (StringMessage ''hi'') (snd (uuid ?s0)))
          = [\<lparr>content_id = 1, data = TextPart ''hi'' None\<rparr>]"
    by (simp add: new_ChatService_def createUserMessageContents_def uuid_def
          createUserMessagePart_def)
  show ?thesis
    using user_turn_stays_pending
            [where proc = recorder and a2aService = "replies ?r1" and now = "''t0''"
               and later = "''t1''" and message = "StringMessage ''hi''" and s = ?s0
               and cs = "[(replies \<lparr>result = Message \<lparr>message_parts = [],
                                               message_contextId = None\<rparr>\<rparr>,
                           ''t2'', ''t3'', StringMessage ''again'')]"]
          fulfils start
    by simp
qed

text \<open>
  Claim C10. The two messages that a call leaves in the history carry the context id
  that the service had when the call started, also when the agent message is completed
  and the response has set another context id. On the first cycle of a new service
  whose response carries a context id, both carry the empty context id and the service
  holds the new one.
\<close>

theorem turns_keep_starting_context_id:
  "\<exists>u a. history (snd (sendMessage proc a2aService now later message s)) = history s @ [u, a]
       \<and> context_id u = contextId s \<and> context_id a = contextId s
       \<and> role u = ui_user \<and> role a = ui_agent ''MyCharts Agent'' ''rizz-agent.png''
       \<and> (fst (sendMessage proc a2aService now later message s) = None \<longrightarrow> status a = completed)
       \<and> (a2aService \<lparr>request = [createUserMessagePart message]\<rparr> (Some (contextId s)) = Inr r
            \<and> result_contextId (result r) = Some c \<and> c \<noteq> [] \<and> s = new_ChatService proc p \<longrightarrow>
          context_id u = [] \<and> context_id a = []
          \<and> contextId (snd (sendMessage proc a2aService now later message s)) = c)"
proof -
  obtain a where a:
    "history (snd (sendMessage proc a2aService now later message s)) =
       history s @
         [\<lparr>message_id = uuids s, context_id = contextId s, role = ui_user,
           contents = fst (createUserMessageContents message (snd (uuid s))),
           status = pending, created = now, lastUpdated = now\<rparr>, a]"
    "context_id a = contextId s"
    "role a = ui_agent ''MyCharts Agent'' ''rizz-agent.png''"
    "status a = (if fst (sendMessage proc a2aService now later message s) = None
                 then completed else pending)"
    using sendMessage_history [of proc a2aService now later message s] by blast
  have "a2aService \<lparr>request = [createUserMessagePart message]\<rparr> (Some (contextId s)) = Inr r
          \<and> result_contextId (result r) = Some c \<and> c \<noteq> [] \<and> s = new_ChatService proc p \<longrightarrow>
        contextId s = []
        \<and> contextId (snd (sendMessage proc a2aService now later message s)) = c"
    by (auto simp add: sendMessage_contextId new_ChatService_def)
  then show ?thesis
    using a by (intro exI [of _ "\<lparr>message_id = uuids s, context_id = contextId s, role = ui_user,
           contents = fst (createUserMessageContents message (snd (uuid s))),
           status = pending, created = now, lastUpdated = now\<rparr>"] exI [of _ a]) auto
qed

theorem turns_keep_starting_context_id_witness:
  "\<exists>u a. history (snd (sendMessage recorder
             (replies \<lparr>result = Message \<lparr>message_parts = [TextPart ''hello'' None],
                                           message_contextId = Some ''ctx-1''\<rparr>\<rparr>)
             ''t0'' ''t1'' (StringMessage ''hi'') (new_ChatService recorder []))) = [u, a]
        \<and> context_id u = [] \<and> context_id a = [] \<and> status a = completed
        \<and> contextId (snd (sendMessage recorder
             (replies \<lparr>result = Message \<lparr>message_parts = [TextPart ''hello'' None],
                                           message_contextId = Some ''ctx-1''\<rparr>\<rparr>)
             ''t0'' ''t1'' (StringMessage ''hi'') (new_ChatService recorder []))) = ''ctx-1''"
proof -
  let ?r1 = "\<lparr>result = Message \<lparr>message_parts = [TextPart ''hello'' None],
                                  message_contextId = Some ''ctx-1''\<rparr>\<rparr>"
  let ?s0 = "new_ChatService recorder [] :: (object list, nat) chat_service"
  have fulfils: "fst (sendMessage recorder (replies ?r1) ''t0'' ''t1'' (StringMessage ''hi'') ?s0)
      = None"
    by (simp add: sendMessage_answered replies_def after_await_thrown recorder_def)
  have answered: "replies ?r1 \<lparr>request = [createUserMessagePart (StringMessage ''hi'')]\<rparr>
      (Some (contextId ?s0)) = Inr ?r1 \<and> result_contextId (result ?r1) = Some ''ctx-1''"
    by (simp add: replies_def result_contextId_def)
  have start: "history ?s0 = []"
    by (simp add: new_ChatService_def)
  show ?thesis
    using turns_keep_starting_context_id
            [where proc = recorder and a2aService = "replies ?r1" and now = "''t0''"
               and later = "''t1''" and message = "StringMessage ''hi''" and s = ?s0
               and r = ?r1 and c = "''ctx-1''" and p = "[]"]
          fulfils answered start
    by auto
qed

end
